theory Spec2Isabelle
  imports Main
begin

section \<open>The test registry and runner (gtest/gtest.h)\<close>

subsection \<open>How a test body can end\<close>

text \<open>
  A test body is a C++ function without arguments and without result, run for its effect
  on the process state \<open>'s\<close>. It ends in one of four ways: it returns; it throws an
  object derived from \<^verbatim>\<open>std::exception\<close> (carrying the text of \<^verbatim>\<open>what()\<close>); it throws
  anything else; or it calls \<^verbatim>\<open>abort()\<close>, which ends the whole process and which no
  \<^verbatim>\<open>catch\<close> clause intercepts.
\<close>

datatype outcome = Returned | Threw string | ThrewOther | Aborted

type_synonym 's body = "'s \<Rightarrow> outcome \<times> 's"

text \<open>Statement sequencing \<^verbatim>\<open>p; q\<close>: \<open>q\<close> runs only when \<open>p\<close> returned.\<close>

definition seq :: "'s body \<Rightarrow> 's body \<Rightarrow> 's body" where
  "seq p q = (\<lambda>s. case p s of (Returned, s') \<Rightarrow> q s' | (sig, s') \<Rightarrow> (sig, s'))"

definition skip :: "'s body" where
  "skip = (\<lambda>s. (Returned, s))"

definition throw_exception :: "string \<Rightarrow> 's body" where
  "throw_exception msg = (\<lambda>s. (Threw msg, s))"

subsection \<open>The assertion macros\<close>

text \<open>
  Every \<^verbatim>\<open>ASSERT_*\<close> macro expands to \<^verbatim>\<open>assert(...)\<close> of \<^verbatim>\<open><cassert>\<close>. In a build
  without \<^verbatim>\<open>NDEBUG\<close> a false condition calls \<^verbatim>\<open>abort()\<close>; with \<^verbatim>\<open>NDEBUG\<close> the macro
  expands to nothing. The build flag is the first argument.
\<close>

definition c_assert :: "bool \<Rightarrow> bool \<Rightarrow> 's body" where
  "c_assert ndebug cond = (\<lambda>s. (if ndebug \<or> cond then Returned else Aborted, s))"

definition ASSERT_EQ :: "bool \<Rightarrow> 'a \<Rightarrow> 'a \<Rightarrow> 's body" where
  "ASSERT_EQ ndebug a b = c_assert ndebug (a = b)"

definition ASSERT_NE :: "bool \<Rightarrow> 'a \<Rightarrow> 'a \<Rightarrow> 's body" where
  "ASSERT_NE ndebug a b = c_assert ndebug (a \<noteq> b)"

definition ASSERT_TRUE :: "bool \<Rightarrow> bool \<Rightarrow> 's body" where
  "ASSERT_TRUE ndebug a = c_assert ndebug a"

definition ASSERT_FALSE :: "bool \<Rightarrow> bool \<Rightarrow> 's body" where
  "ASSERT_FALSE ndebug a = c_assert ndebug (\<not> a)"

definition ASSERT_GT :: "bool \<Rightarrow> int \<Rightarrow> int \<Rightarrow> 's body" where
  "ASSERT_GT ndebug a b = c_assert ndebug (a > b)"

definition ASSERT_GE :: "bool \<Rightarrow> int \<Rightarrow> int \<Rightarrow> 's body" where
  "ASSERT_GE ndebug a b = c_assert ndebug (a \<ge> b)"

definition ASSERT_LT :: "bool \<Rightarrow> int \<Rightarrow> int \<Rightarrow> 's body" where
  "ASSERT_LT ndebug a b = c_assert ndebug (a < b)"

definition ASSERT_LE :: "bool \<Rightarrow> int \<Rightarrow> int \<Rightarrow> 's body" where
  "ASSERT_LE ndebug a b = c_assert ndebug (a \<le> b)"

subsection \<open>The registry\<close>

record 's TestInfo =
  name :: string
  func :: "'s body"

text \<open>The field \<^verbatim>\<open>tests_\<close> of the source is \<open>tests\<close> here (an identifier cannot end in an underscore).\<close>

record 's TestRegistry =
  tests :: "'s TestInfo list"

text \<open>The registry that \<^verbatim>\<open>instance()\<close> creates on its first call.\<close>

definition new_TestRegistry :: "'s TestRegistry" where
  "new_TestRegistry = \<lparr>tests = []\<rparr>"

definition register_test :: "string \<Rightarrow> 's body \<Rightarrow> 's TestRegistry \<Rightarrow> 's TestRegistry" where
  "register_test nm f reg = reg\<lparr>tests := tests reg @ [\<lparr>name = nm, func = f\<rparr>]\<rparr>"

subsection \<open>The runner\<close>

text \<open>
  \<^verbatim>\<open>run_all_tests\<close> either returns its failure count, or the process is ended by an
  \<^verbatim>\<open>abort()\<close> inside a body. Both results carry the lines written to standard output
  and the process state.
\<close>

datatype 's run_result =
    Finished int "string list" 's
  | Terminated "string list" 's

fun run_loop :: "'s TestInfo list \<Rightarrow> int \<Rightarrow> string list \<Rightarrow> 's \<Rightarrow> 's run_result" where
  "run_loop [] failures out s = Finished failures out s"
| "run_loop (t # ts) failures out s =
     (case func t s of
        (Returned, s') \<Rightarrow> run_loop ts failures (out @ [''[ PASS ] '' @ name t]) s'
      | (Threw msg, s') \<Rightarrow>
          run_loop ts (failures + 1) (out @ [''[ FAIL ] '' @ name t @ '': '' @ msg]) s'
      | (ThrewOther, s') \<Rightarrow>
          run_loop ts (failures + 1) (out @ [''[ FAIL ] '' @ name t @ '': Unknown exception'']) s'
      | (Aborted, s') \<Rightarrow> Terminated out s')"

definition run_all_tests :: "'s TestRegistry \<Rightarrow> 's \<Rightarrow> 's run_result" where
  "run_all_tests reg s = run_loop (tests reg) 0 [] s"



subsection \<open>The registration macros\<close>

text \<open>\<^verbatim>\<open>TEST(suite, name)\<close> registers the body under the name \<^verbatim>\<open>suite.name\<close>.\<close>

definition TEST :: "string \<Rightarrow> string \<Rightarrow> 's body \<Rightarrow> 's TestRegistry \<Rightarrow> 's TestRegistry" where
  "TEST suite nm b reg = register_test (suite @ ''.'' @ nm) b reg"

text \<open>
  A fixture class overrides \<^verbatim>\<open>SetUp\<close> and \<^verbatim>\<open>TearDown\<close> of \<^verbatim>\<open>testing::Test\<close>;
  \<^verbatim>\<open>TEST_F\<close> adds \<^verbatim>\<open>TestBody\<close> and registers a function that constructs the test
  object and calls the three in a row. Constructor and destructor are those of
  \<^verbatim>\<open>testing::Test\<close>, which do nothing.
\<close>

record 's fixture =
  SetUp :: "'s body"
  TestBody :: "'s body"
  TearDown :: "'s body"

definition TestFunc :: "'s fixture \<Rightarrow> 's body" where
  "TestFunc fx = seq (SetUp fx) (seq (TestBody fx) (TearDown fx))"

definition TEST_F :: "string \<Rightarrow> string \<Rightarrow> 's fixture \<Rightarrow> 's TestRegistry \<Rightarrow> 's TestRegistry" where
  "TEST_F fxname nm fx reg = register_test (fxname @ ''.'' @ nm) (TestFunc fx) reg"

subsection \<open>Test programs used as concrete inputs\<close>

text \<open>The process state of these programs is the list of events recorded so far.\<close>

definition record_event :: "string \<Rightarrow> string list body" where
  "record_event e = (\<lambda>s. (Returned, s @ [e]))"

text \<open>
  Two tests: the first records itself and then fails \<^verbatim>\<open>ASSERT_EQ(1, 2)\<close>, the second
  records itself and passes.
\<close>

definition failing_suite :: "bool \<Rightarrow> string list TestRegistry" where
  "failing_suite ndebug =
     TEST ''Suite'' ''second'' (record_event ''second'')
       (TEST ''Suite'' ''first''
          (seq (record_event ''first'') (ASSERT_EQ ndebug (1::int) 2))
          new_TestRegistry)"



text \<open>
  Fixtures whose hooks record themselves: one body fails an assertion, one throws, one
  passes.
\<close>

definition asserting_fixture :: "bool \<Rightarrow> string list fixture" where
  "asserting_fixture ndebug =
     \<lparr>SetUp = record_event ''SetUp'',
      TestBody = seq (record_event ''TestBody'') (ASSERT_TRUE ndebug False),
      TearDown = record_event ''TearDown''\<rparr>"

definition throwing_fixture :: "string list fixture" where
  "throwing_fixture =
     \<lparr>SetUp = record_event ''SetUp'',
      TestBody = seq (record_event ''TestBody'') (throw_exception ''boom''),
      TearDown = record_event ''TearDown''\<rparr>"

definition passing_fixture :: "string list fixture" where
  "passing_fixture =
     \<lparr>SetUp = record_event ''SetUp'',
      TestBody = record_event ''TestBody'',
      TearDown = record_event ''TearDown''\<rparr>"

section \<open>The hardware stubs (stubs/Arduino_stubs.cpp)\<close>

subsection \<open>Integers, C strings and the standard library\<close>

text \<open>
  A C \<^verbatim>\<open>int\<close> has 32 bits. Values of type \<^verbatim>\<open>int\<close> are modelled by the integer they
  denote; the two conversions between \<^verbatim>\<open>int\<close> and the 64-bit \<^verbatim>\<open>size_t\<close> that the code
  performs are written out with their wrap-around.
\<close>

definition INT_MAX :: int where
  "INT_MAX = 2147483647"

definition INT_MIN :: int where
  "INT_MIN = - 2147483648"

definition static_cast_int :: "nat \<Rightarrow> int" where
  "static_cast_int n = (int n + 2147483648) mod 4294967296 - 2147483648"

definition size_t_of_int :: "int \<Rightarrow> nat" where
  "size_t_of_int i = nat (i mod 18446744073709551616)"

text \<open>
  A \<^verbatim>\<open>const char*\<close> argument is given by the bytes it points to; the text it denotes
  ends before the first zero byte.
\<close>

definition cstr :: "string \<Rightarrow> string" where
  "cstr p = takeWhile (\<lambda>c. c \<noteq> CHR 0x00) p"

type_synonym ostream = string

datatype cpp_exception = invalid_argument | out_of_range

text \<open>\<^verbatim>\<open>std::to_string(int)\<close>: the decimal rendering, with a minus sign when negative.\<close>

definition digit_char :: "nat \<Rightarrow> char" where
  "digit_char d = char_of (48 + d)"

fun digits_of :: "nat \<Rightarrow> string" where
  "digits_of n = (if n < 10 then [digit_char n] else digits_of (n div 10) @ [digit_char (n mod 10)])"

declare digits_of.simps [simp del]

definition to_string :: "int \<Rightarrow> string" where
  "to_string v = (if v < 0 then CHR ''-'' # digits_of (nat (- v)) else digits_of (nat v))"

text \<open>
  \<^verbatim>\<open>std::stoi(str)\<close> in base 10, as the C++ standard defines it through \<^verbatim>\<open>strtol\<close>:
  white space is skipped, an optional sign is read, then the longest run of decimal
  digits. No digit at all throws \<^verbatim>\<open>std::invalid_argument\<close>; a value that does not fit
  an \<^verbatim>\<open>int\<close> throws \<^verbatim>\<open>std::out_of_range\<close>.
\<close>

definition isspace :: "char \<Rightarrow> bool" where
  "isspace c = (c \<in> set [CHR '' '', CHR 0x09, CHR 0x0A, CHR 0x0B, CHR 0x0C, CHR 0x0D])"

definition is_digit :: "char \<Rightarrow> bool" where
  "is_digit c = (48 \<le> (of_char c :: nat) \<and> (of_char c :: nat) \<le> 57)"

definition digit_val :: "char \<Rightarrow> nat" where
  "digit_val c = of_char c - 48"

definition digits_value :: "string \<Rightarrow> nat" where
  "digits_value ds = foldl (\<lambda>acc c. acc * 10 + digit_val c) 0 ds"

fun read_sign :: "string \<Rightarrow> bool \<times> string" where
  "read_sign [] = (False, [])"
| "read_sign (c # r) =
     (if c = CHR ''-'' then (True, r) else if c = CHR ''+'' then (False, r) else (False, c # r))"

definition stoi :: "string \<Rightarrow> cpp_exception + int" where
  "stoi str =
     (let (neg, rest) = read_sign (dropWhile isspace str);
          ds = takeWhile is_digit rest
      in if ds = [] then Inl invalid_argument
         else let v = (if neg then - int (digits_value ds) else int (digits_value ds))
              in if v < INT_MIN \<or> INT_MAX < v then Inl out_of_range else Inr v)"

text \<open>
  \<^verbatim>\<open>std::string::find(needle, pos)\<close>: the lowest position \<open>i \<ge> pos\<close> with
  \<open>i + length needle \<le> length content\<close> at which \<open>needle\<close> occurs; \<open>None\<close> is \<^verbatim>\<open>npos\<close>.
\<close>

definition occurs_at :: "string \<Rightarrow> string \<Rightarrow> nat \<Rightarrow> bool" where
  "occurs_at content needle i =
     (i + length needle \<le> length content \<and> take (length needle) (drop i content) = needle)"

definition std_find :: "string \<Rightarrow> string \<Rightarrow> nat \<Rightarrow> nat option" where
  "std_find content needle pos =
     List.find (occurs_at content needle) [pos ..< Suc (length content)]"

text \<open>
  \<^verbatim>\<open>std::string::substr(pos, n)\<close> throws \<^verbatim>\<open>std::out_of_range\<close> when \<open>pos\<close> is beyond
  the end.
\<close>

definition std_substr :: "string \<Rightarrow> nat \<Rightarrow> nat \<Rightarrow> cpp_exception + string" where
  "std_substr content pos n =
     (if pos > length content then Inl out_of_range else Inr (take n (drop pos content)))"

subsection \<open>The text value \<^verbatim>\<open>String\<close>\<close>

record String =
  content :: string

definition String_cstr :: "string \<Rightarrow> String" where
  "String_cstr p = \<lparr>content = cstr p\<rparr>"

definition String_int :: "int \<Rightarrow> String" where
  "String_int v = \<lparr>content = to_string v\<rparr>"

definition append_char :: "char \<Rightarrow> String \<Rightarrow> String" where
  "append_char ch str = str\<lparr>content := content str @ [ch]\<rparr>"

definition c_str :: "String \<Rightarrow> string" where
  "c_str str = content str @ [CHR 0x00]"

definition toInt :: "String \<Rightarrow> int" where
  "toInt str = (case stoi (content str) of Inr v \<Rightarrow> v | Inl e \<Rightarrow> 0)"

definition length_String :: "String \<Rightarrow> int" where
  "length_String str = static_cast_int (length (content str))"

text \<open>The three overloads of \<^verbatim>\<open>indexOf\<close>: a C string, a character, a \<^verbatim>\<open>String\<close>.\<close>

definition npos_or_int :: "nat option \<Rightarrow> int" where
  "npos_or_int r = (case r of None \<Rightarrow> - 1 | Some pos \<Rightarrow> static_cast_int pos)"

definition indexOf_cstr :: "String \<Rightarrow> string \<Rightarrow> int \<Rightarrow> int" where
  "indexOf_cstr str needle fromIndex =
     npos_or_int (std_find (content str) (cstr needle) (size_t_of_int fromIndex))"

definition indexOf_char :: "String \<Rightarrow> char \<Rightarrow> int \<Rightarrow> int" where
  "indexOf_char str ch fromIndex =
     npos_or_int (std_find (content str) [ch] (size_t_of_int fromIndex))"

definition indexOf_String :: "String \<Rightarrow> String \<Rightarrow> int \<Rightarrow> int" where
  "indexOf_String str needle fromIndex =
     npos_or_int (std_find (content str) (content needle) (size_t_of_int fromIndex))"

definition substring :: "String \<Rightarrow> int \<Rightarrow> int \<Rightarrow> cpp_exception + String" where
  "substring str start end =
     (let end1 = (if end = - 1 then length_String str else end);
          start1 = (if start < 0 then 0 else start);
          end2 = (if end1 > length_String str then length_String str else end1)
      in if start1 \<ge> end2 then Inr (String_cstr [])
         else (case std_substr (content str) (size_t_of_int start1) (size_t_of_int (end2 - start1)) of
                 Inl e \<Rightarrow> Inl e
               | Inr piece \<Rightarrow> Inr (String_cstr (piece @ [CHR 0x00]))))"

text \<open>
  The bounds the specification names for \<^verbatim>\<open>substring\<close>: the start clamped to at least
  0, and the end clamped to the length when it is the sentinel \<open>-1\<close> or lies beyond the
  length.
\<close>

definition clamp_start :: "int \<Rightarrow> int" where
  "clamp_start s = max 0 s"

definition clamp_end :: "String \<Rightarrow> int \<Rightarrow> int" where
  "clamp_end str e = (if e = - 1 \<or> e > length_String str then length_String str else e)"

subsection \<open>The console \<^verbatim>\<open>Serial\<close>\<close>

record SerialClass =
  println_calls :: "string list"
  print_calls :: "string list"
  outputBuffer :: string
  begin_baud :: int
  begin_call_count :: int
  println_call_count :: int
  print_call_count :: int
  last_baud_rate :: int

definition SerialClass_reset :: "SerialClass \<Rightarrow> SerialClass" where
  "SerialClass_reset ser =
     ser\<lparr>println_calls := [], print_calls := [], outputBuffer := [], begin_baud := 0,
         begin_call_count := 0, println_call_count := 0, print_call_count := 0,
         last_baud_rate := 0\<rparr>"

definition SerialClass_begin :: "int \<Rightarrow> SerialClass \<Rightarrow> SerialClass" where
  "SerialClass_begin baud ser =
     ser\<lparr>begin_baud := baud, last_baud_rate := baud,
         begin_call_count := begin_call_count ser + 1\<rparr>"

text \<open>
  The overloads of \<^verbatim>\<open>print\<close> and \<^verbatim>\<open>println\<close>, named after their argument: a C string, an
  \<^verbatim>\<open>int\<close>, a \<^verbatim>\<open>String\<close>. The \<^verbatim>\<open>int\<close> overloads write to \<^verbatim>\<open>std::cout\<close>, which they take
  and return.
\<close>

definition print_cstr :: "string \<Rightarrow> SerialClass \<Rightarrow> SerialClass" where
  "print_cstr str ser =
     ser\<lparr>print_calls := print_calls ser @ [cstr str],
         outputBuffer := outputBuffer ser @ cstr str,
         print_call_count := print_call_count ser + 1\<rparr>"

definition println_cstr :: "string \<Rightarrow> SerialClass \<Rightarrow> SerialClass" where
  "println_cstr str ser =
     ser\<lparr>println_calls := println_calls ser @ [cstr str],
         outputBuffer := (outputBuffer ser @ cstr str) @ [CHR 0x0A],
         println_call_count := println_call_count ser + 1\<rparr>"

definition print_int :: "int \<Rightarrow> SerialClass \<Rightarrow> ostream \<Rightarrow> SerialClass \<times> ostream" where
  "print_int val ser cout =
     (ser\<lparr>print_calls := print_calls ser @ [to_string val]\<rparr>, cout @ to_string val)"

definition println_int :: "int \<Rightarrow> SerialClass \<Rightarrow> ostream \<Rightarrow> SerialClass \<times> ostream" where
  "println_int val ser cout =
     (ser\<lparr>println_calls := println_calls ser @ [to_string val]\<rparr>,
      cout @ to_string val @ [CHR 0x0A])"

definition print_String :: "String \<Rightarrow> SerialClass \<Rightarrow> SerialClass" where
  "print_String str ser =
     ser\<lparr>print_calls := print_calls ser @ [content str],
         outputBuffer := outputBuffer ser @ content str,
         print_call_count := print_call_count ser + 1\<rparr>"

definition println_String :: "String \<Rightarrow> SerialClass \<Rightarrow> SerialClass" where
  "println_String str ser =
     ser\<lparr>println_calls := println_calls ser @ [content str],
         outputBuffer := (outputBuffer ser @ content str) @ [CHR 0x0A],
         println_call_count := println_call_count ser + 1\<rparr>"

text \<open>A console after \<^verbatim>\<open>reset()\<close>, as a concrete input.\<close>

definition fresh_Serial :: SerialClass where
  "fresh_Serial =
     \<lparr>println_calls = [], print_calls = [], outputBuffer = [], begin_baud = 0,
      begin_call_count = 0, println_call_count = 0, print_call_count = 0,
      last_baud_rate = 0\<rparr>"

subsection \<open>Digital I/O and the delay log\<close>

text \<open>
  The entries of the two call logs: a written pin with its value, and the requested
  milliseconds of a delay as \<^verbatim>\<open>unsigned long\<close>.
\<close>

datatype DigitalWriteCall = DigitalWriteCall int int

datatype DelayCall = DelayCall nat

text \<open>
  The global state of the stubs: the static pin table, the two call logs, the console and
  the reference instant of the clock (in milliseconds of the steady clock).
\<close>

record stubs =
  pin_states :: "int \<rightharpoonup> int"
  mock_digitalWrite_calls :: "DigitalWriteCall list"
  mock_delay_calls :: "DelayCall list"
  Serial :: SerialClass
  start_time :: nat

text \<open>\<^verbatim>\<open>reset_arduino_stubs\<close> reads the steady clock; the instant read is \<open>now\<close>.\<close>

definition reset_arduino_stubs :: "nat \<Rightarrow> stubs \<Rightarrow> stubs" where
  "reset_arduino_stubs now st =
     st\<lparr>mock_digitalWrite_calls := [], mock_delay_calls := [], pin_states := Map.empty,
        Serial := SerialClass_reset (Serial st), start_time := now\<rparr>"

definition digitalWrite :: "int \<Rightarrow> int \<Rightarrow> stubs \<Rightarrow> stubs" where
  "digitalWrite pin val st =
     st\<lparr>mock_digitalWrite_calls := mock_digitalWrite_calls st @ [DigitalWriteCall pin val],
        pin_states := (pin_states st)(pin \<mapsto> val)\<rparr>"

text \<open>
  \<^verbatim>\<open>pin_states[pin]\<close> on a \<^verbatim>\<open>std::map\<close> inserts the pin with the value 0 when it is not
  in the table.
\<close>

definition digitalRead :: "int \<Rightarrow> stubs \<Rightarrow> int \<times> stubs" where
  "digitalRead pin st =
     (case pin_states st pin of
        Some v \<Rightarrow> (v, st)
      | None \<Rightarrow> (0, st\<lparr>pin_states := (pin_states st)(pin \<mapsto> 0)\<rparr>))"

definition pinMode :: "int \<Rightarrow> int \<Rightarrow> stubs \<Rightarrow> stubs" where
  "pinMode pin mode st = st"

definition delay :: "int \<Rightarrow> stubs \<Rightarrow> stubs" where
  "delay ms st = st\<lparr>mock_delay_calls := mock_delay_calls st @ [DelayCall (size_t_of_int ms)]\<rparr>"

text \<open>A sequence of digital I/O calls, run from left to right.\<close>

datatype io_call = Write int int | Read int | Mode int int

fun io_step :: "stubs \<Rightarrow> io_call \<Rightarrow> stubs" where
  "io_step st (Write pin val) = digitalWrite pin val st"
| "io_step st (Read pin) = snd (digitalRead pin st)"
| "io_step st (Mode pin mode) = pinMode pin mode st"

definition io_run :: "io_call list \<Rightarrow> stubs \<Rightarrow> stubs" where
  "io_run calls st = foldl io_step st calls"

text \<open>What the specification speaks of: the write calls among the calls, in call order,
  and the value of the most recent write to a pin.\<close>

fun writes_of :: "io_call list \<Rightarrow> DigitalWriteCall list" where
  "writes_of [] = []"
| "writes_of (Write pin val # cs) = DigitalWriteCall pin val # writes_of cs"
| "writes_of (c # cs) = writes_of cs"

fun last_write :: "int \<Rightarrow> io_call list \<Rightarrow> int option" where
  "last_write pin [] = None"
| "last_write pin (Write p val # cs) =
     (case last_write pin cs of Some v \<Rightarrow> Some v | None \<Rightarrow> if p = pin then Some val else None)"
| "last_write pin (c # cs) = last_write pin cs"

subsection \<open>The network client\<close>

text \<open>
  The data members of \<^verbatim>\<open>HTTPClient\<close> that the methods use. The counter is
  \<^verbatim>\<open>begin_call_count\<close> in the source; it carries a prefix here to tell it from the
  console's counter of the same name.
\<close>

record HTTPClient =
  http_begin_call_count :: int
  begin_url :: string
  GET_return :: int
  getString_return :: string

definition HTTPClient_begin :: "String \<Rightarrow> HTTPClient \<Rightarrow> HTTPClient" where
  "HTTPClient_begin url c =
     c\<lparr>http_begin_call_count := http_begin_call_count c + 1, begin_url := content url\<rparr>"

definition HTTPClient_setTimeout :: "int \<Rightarrow> HTTPClient \<Rightarrow> HTTPClient" where
  "HTTPClient_setTimeout ms c = c"

definition HTTPClient_GET :: "HTTPClient \<Rightarrow> int" where
  "HTTPClient_GET c = GET_return c"

definition HTTPClient_getString :: "HTTPClient \<Rightarrow> String" where
  "HTTPClient_getString c = String_cstr (getString_return c @ [CHR 0x00])"

definition HTTPClient_end :: "HTTPClient \<Rightarrow> HTTPClient" where
  "HTTPClient_end c = c"

definition HTTPClient_reset :: "HTTPClient \<Rightarrow> HTTPClient" where
  "HTTPClient_reset c =
     c\<lparr>http_begin_call_count := 0, begin_url := [], GET_return := 200, getString_return := []\<rparr>"

text \<open>The test double \<^verbatim>\<open>MockHTTPClient\<close> with its two setters.\<close>

record MockHTTPClient =
  mock_response_code :: int
  mock_response_body :: String

definition new_MockHTTPClient :: MockHTTPClient where
  "new_MockHTTPClient = \<lparr>mock_response_code = 200, mock_response_body = String_cstr []\<rparr>"

definition setResponseCode :: "int \<Rightarrow> MockHTTPClient \<Rightarrow> MockHTTPClient" where
  "setResponseCode code m = m\<lparr>mock_response_code := code\<rparr>"

definition setResponseString :: "String \<Rightarrow> MockHTTPClient \<Rightarrow> MockHTTPClient" where
  "setResponseString str m = m\<lparr>mock_response_body := str\<rparr>"

definition MockHTTPClient_GET :: "MockHTTPClient \<Rightarrow> int" where
  "MockHTTPClient_GET m = mock_response_code m"

definition MockHTTPClient_getString :: "MockHTTPClient \<Rightarrow> String" where
  "MockHTTPClient_getString m = mock_response_body m"

subsection \<open>The filesystem\<close>

text \<open>
  A \<^verbatim>\<open>File\<close> handle carries no data that the methods read. The counter of
  \<^verbatim>\<open>File::available\<close> is a \<^verbatim>\<open>static\<close> local variable of the method: one counter for
  the whole process, which every call on every handle reads and increments. Incrementing
  it at \<open>INT_MAX\<close> is a signed overflow and has no defined result (\<open>None\<close>).
\<close>

datatype File = File

definition SPIFFS_open :: "string \<Rightarrow> string \<Rightarrow> ostream \<Rightarrow> File \<times> ostream" where
  "SPIFFS_open path mode cout =
     (File, cout @ ''SPIFFS.open('' @ cstr path @ '', '' @ cstr mode @ '')'' @ [CHR 0x0A])"

definition File_available :: "File \<Rightarrow> int \<Rightarrow> (bool \<times> int) option" where
  "File_available f count = (if count = INT_MAX then None else Some (count < 10, count + 1))"

definition File_read :: "File \<Rightarrow> char" where
  "File_read f = CHR ''a''"

text \<open>\<open>n\<close> calls of \<^verbatim>\<open>available()\<close> in a row on one handle, with their results.\<close>

fun available_calls :: "File \<Rightarrow> nat \<Rightarrow> int \<Rightarrow> (bool list \<times> int) option" where
  "available_calls f 0 count = Some ([], count)"
| "available_calls f (Suc n) count =
     (case File_available f count of
        None \<Rightarrow> None
      | Some (b, count') \<Rightarrow>
          (case available_calls f n count' of
             None \<Rightarrow> None
           | Some (bs, count'') \<Rightarrow> Some (b # bs, count'')))"

text \<open>
  A program on two handles: open the first and ask it \<open>n\<close> times, then open the second
  and ask it once. The result is what the first handle answered and what the second
  answered.
\<close>

definition two_handles :: "nat \<Rightarrow> (bool list \<times> bool) option" where
  "two_handles n =
     (let (first, cout1) = SPIFFS_open ''/a.txt'' ''r'' [] in
      case available_calls first n 0 of
        None \<Rightarrow> None
      | Some (answers, count1) \<Rightarrow>
          (let (second, cout2) = SPIFFS_open ''/b.txt'' ''w'' cout1 in
           case File_available second count1 of
             None \<Rightarrow> None
           | Some (b, count2) \<Rightarrow> Some (answers, b)))"

subsection \<open>The specification's wording of a search result, and concrete inputs\<close>

text \<open>
  What the specification says of \<^verbatim>\<open>indexOf\<close>: the result \<open>r\<close> is the sentinel \<open>-1\<close> and
  the needle does not occur at or after \<open>fromIndex\<close>, or \<open>r\<close> is the first position at or
  after \<open>fromIndex\<close> where the needle occurs.
\<close>

definition first_match_or_sentinel :: "string \<Rightarrow> string \<Rightarrow> int \<Rightarrow> int \<Rightarrow> bool" where
  "first_match_or_sentinel hay needle fromIndex r =
     ((r = - 1 \<and> (\<forall>i. fromIndex \<le> int i \<longrightarrow> \<not> occurs_at hay needle i))
      \<or> (0 \<le> r \<and> fromIndex \<le> r \<and> occurs_at hay needle (nat r)
          \<and> (\<forall>j. fromIndex \<le> int j \<and> int j < r \<longrightarrow> \<not> occurs_at hay needle j)))"

text \<open>Concrete inputs: a state that earlier calls have left behind, and a call sequence.\<close>

definition used_stubs :: stubs where
  "used_stubs =
     \<lparr>pin_states = [13 \<mapsto> 1, 7 \<mapsto> 1],
      mock_digitalWrite_calls = [DigitalWriteCall 13 1, DigitalWriteCall 7 1],
      mock_delay_calls = [DelayCall 500],
      Serial = fresh_Serial,
      start_time = 0\<rparr>"

definition blink_calls :: "io_call list" where
  "blink_calls = [Mode 13 1, Write 13 0, Read 13, Write 2 1, Write 13 1, Read 2]"

section \<open>Properties of the runner\<close>






text \<open>
  C1. The claim fails on the two-test program \<open>failing_suite\<close>, whose first body fails
  \<^verbatim>\<open>ASSERT_EQ(1, 2)\<close>. In a build where \<^verbatim>\<open>assert\<close> is active the failed assertion ends
  the process: nothing is printed, the second body is never invoked and no failure count
  is returned. In a build with \<^verbatim>\<open>NDEBUG\<close> the assertion is no check at all: both tests
  are reported as passed and the failure count is 0, although one body failed an
  assertion.
\<close>

theorem failed_assertion_ends_the_run:
  "run_all_tests (failing_suite False) [] = Terminated [] [''first'']
   \<and> run_all_tests (failing_suite True) [] =
       Finished 0 [''[ PASS ] Suite.first'', ''[ PASS ] Suite.second''] [''first'', ''second'']"
  by (simp add: failing_suite_def TEST_def register_test_def new_TestRegistry_def
      run_all_tests_def seq_def record_event_def ASSERT_EQ_def c_assert_def)

section \<open>Properties of fixture tests\<close>

text \<open>
  C2, as the specification states it, fails: when the body throws, or fails an assertion
  in a build where \<^verbatim>\<open>assert\<close> is active, the function generated by \<^verbatim>\<open>TEST_F\<close> is left
  before it reaches the call of \<^verbatim>\<open>TearDown\<close>. The recorded events end with the body, and
  the runner reports the failure without the teardown hook having run.
\<close>

theorem teardown_skipped_counterexample:
  "TestFunc throwing_fixture [] = (Threw ''boom'', [''SetUp'', ''TestBody''])
   \<and> TestFunc (asserting_fixture False) [] = (Aborted, [''SetUp'', ''TestBody''])
   \<and> run_all_tests (TEST_F ''Fx'' ''fails'' throwing_fixture new_TestRegistry) [] =
       Finished 1 [''[ FAIL ] Fx.fails: boom''] [''SetUp'', ''TestBody'']"
  by (simp add: TestFunc_def throwing_fixture_def asserting_fixture_def seq_def
      record_event_def throw_exception_def ASSERT_TRUE_def c_assert_def
      TEST_F_def register_test_def new_TestRegistry_def run_all_tests_def)

text \<open>
  C2, amended. For every fixture-based test, the teardown hook runs right after the
  body, in the state the body left, whenever the setup hook and the body both return
  normally.
\<close>

theorem teardown_runs_after_returning_body:
  "SetUp fx s = (Returned, s1) \<Longrightarrow> TestBody fx s1 = (Returned, s2) \<Longrightarrow>
   TestFunc fx s = TearDown fx s2"
  by (simp add: TestFunc_def seq_def)

theorem teardown_runs_after_returning_body_witness:
  "TestFunc passing_fixture [] = (Returned, [''SetUp'', ''TestBody'', ''TearDown''])"
proof -
  have hook: "SetUp passing_fixture [] = (Returned, [''SetUp''])"
    by (simp add: passing_fixture_def record_event_def)
  have test: "TestBody passing_fixture [''SetUp''] = (Returned, [''SetUp'', ''TestBody''])"
    by (simp add: passing_fixture_def record_event_def)
  have "TestFunc passing_fixture [] = TearDown passing_fixture [''SetUp'', ''TestBody'']"
    using hook test by (rule teardown_runs_after_returning_body)
  then show ?thesis
    by (simp add: passing_fixture_def record_event_def)
qed

section \<open>Properties of the text value\<close>

lemma static_cast_int_le: "static_cast_int n \<le> int n"
proof -
  have "(int n + 2147483648) mod 4294967296 \<le> int n + 2147483648"
    by (rule zmod_le_nonneg_dividend) simp
  then show ?thesis by (simp add: static_cast_int_def)
qed

lemma static_cast_int_less: "static_cast_int n < 2147483648"
proof -
  have "(int n + 2147483648) mod 4294967296 < 4294967296"
    by simp
  then show ?thesis by (simp add: static_cast_int_def)
qed

lemma static_cast_int_small: "int n \<le> INT_MAX \<Longrightarrow> static_cast_int n = int n"
  by (simp add: static_cast_int_def INT_MAX_def)

lemma size_t_of_int_small: "0 \<le> i \<Longrightarrow> i < 2147483648 \<Longrightarrow> size_t_of_int i = nat i"
  by (simp add: size_t_of_int_def)

lemma length_cstr_le: "length (cstr p) \<le> length p"
  by (simp add: cstr_def length_takeWhile_le)

lemma cstr_terminated: "cstr (p @ [CHR 0x00]) = cstr p"
  by (induction p) (simp_all add: cstr_def)

lemma substring_in_range:
  assumes "0 \<le> s1" "s1 < e2" "e2 \<le> length_String str"
  shows "std_substr (content str) (size_t_of_int s1) (size_t_of_int (e2 - s1)) =
     Inr (take (nat (e2 - s1)) (drop (nat s1) (content str)))"
proof -
  have len: "length_String str \<le> int (length (content str))" "length_String str < 2147483648"
    by (simp_all add: length_String_def static_cast_int_le static_cast_int_less)
  have "size_t_of_int s1 = nat s1" "size_t_of_int (e2 - s1) = nat (e2 - s1)"
    using assms len by (simp_all add: size_t_of_int_small)
  moreover have "nat s1 \<le> length (content str)"
    using assms len by linarith
  ultimately show ?thesis
    by (simp add: std_substr_def)
qed

lemma substring_eq:
  "substring str s e =
     Inr (if clamp_end str e \<le> clamp_start s then String_cstr []
          else String_cstr (take (nat (clamp_end str e - clamp_start s))
                 (drop (nat (clamp_start s)) (content str))))"
proof (cases "clamp_end str e \<le> clamp_start s")
  case True
  then show ?thesis
    by (auto simp add: substring_def clamp_end_def clamp_start_def Let_def max_def
        split: if_splits)
next
  case False
  then have r: "0 \<le> clamp_start s" "clamp_start s < clamp_end str e"
    "clamp_end str e \<le> length_String str"
    by (auto simp add: clamp_end_def clamp_start_def)
  have "substring str s e =
      (case std_substr (content str) (size_t_of_int (clamp_start s))
              (size_t_of_int (clamp_end str e - clamp_start s)) of
         Inl ex \<Rightarrow> Inl ex | Inr piece \<Rightarrow> Inr (String_cstr (piece @ [CHR 0x00])))"
    using False
    by (auto simp add: substring_def clamp_end_def clamp_start_def Let_def max_def
        split: if_splits)
  then show ?thesis
    using False by (simp add: substring_in_range [OF r] String_cstr_def cstr_terminated)
qed

text \<open>
  C5. For every text value and all integers \<open>s\<close> and \<open>e\<close>, \<^verbatim>\<open>substring(s, e)\<close> returns a
  text value and throws nothing. The start is clamped to at least 0; the end is clamped to
  the length when it is \<open>-1\<close> or lies beyond the length; when the clamped range is empty
  or inverted the result is the empty text; and the result is never longer than
  \<open>max 0 (clamp_end - clamp_start)\<close>.
\<close>

theorem substring_total_and_bounded:
  "\<exists>r. substring str s e = Inr r
     \<and> int (length (content r)) \<le> max 0 (clamp_end str e - clamp_start s)
     \<and> (clamp_end str e \<le> clamp_start s \<longrightarrow> content r = [])
     \<and> 0 \<le> clamp_start s
     \<and> (e = - 1 \<or> e > length_String str \<longrightarrow> clamp_end str e = length_String str)"
proof (cases "clamp_end str e \<le> clamp_start s")
  case True
  have "cstr [] = []"
    by (simp add: cstr_def)
  with True show ?thesis
    by (simp add: substring_eq String_cstr_def clamp_start_def clamp_end_def)
next
  case False
  let ?piece = "take (nat (clamp_end str e - clamp_start s))
            (drop (nat (clamp_start s)) (content str))"
  have "length (cstr ?piece) \<le> length ?piece"
    by (rule length_cstr_le)
  also have "\<dots> \<le> nat (clamp_end str e - clamp_start s)"
    by simp
  finally have "int (length (cstr ?piece)) \<le> clamp_end str e - clamp_start s"
    using False by linarith
  moreover have "0 \<le> clamp_start s"
    by (simp add: clamp_start_def)
  moreover have "e = - 1 \<or> e > length_String str \<longrightarrow> clamp_end str e = length_String str"
    by (simp add: clamp_end_def)
  ultimately show ?thesis
    using False by (simp add: substring_eq String_cstr_def)
qed

theorem substring_total_and_bounded_witness:
  "substring (String_cstr ''hello'') 3 1 = Inr (String_cstr [])
   \<and> clamp_end (String_cstr ''hello'') (- 1) = 5
   \<and> substring (String_cstr ''hello'') (- 4) 99 = Inr (String_cstr ''hello'')
   \<and> substring (String_cstr ''hello'') 1 (- 1) = Inr (String_cstr ''ello'')"
proof -
  have inverted: "clamp_end (String_cstr ''hello'') 1 \<le> clamp_start 3"
    by code_simp
  obtain r where r: "substring (String_cstr ''hello'') 3 1 = Inr r"
      "clamp_end (String_cstr ''hello'') 1 \<le> clamp_start 3 \<longrightarrow> content r = []"
    using substring_total_and_bounded [of "String_cstr ''hello''" 3 1] by blast
  have "r = String_cstr []"
    using r(2) inverted by (simp add: String_cstr_def cstr_def)
  then have first: "substring (String_cstr ''hello'') 3 1 = Inr (String_cstr [])"
    using r(1) by simp
  have len: "length_String (String_cstr ''hello'') = 5"
    by code_simp
  have sentinel: "clamp_end (String_cstr ''hello'') (- 1) = 5"
    using substring_total_and_bounded [of "String_cstr ''hello''" 1 "- 1"] len by auto
  have second: "substring (String_cstr ''hello'') (- 4) 99 = Inr (String_cstr ''hello'')"
    by code_simp
  have third: "substring (String_cstr ''hello'') 1 (- 1) = Inr (String_cstr ''ello'')"
    by code_simp
  from first sentinel second third show ?thesis by simp
qed

lemma occurs_at_in_range: "occurs_at hay needle i \<Longrightarrow> i \<le> length hay"
  by (simp add: occurs_at_def)

lemma std_find_None:
  "std_find hay needle pos = None \<Longrightarrow> pos \<le> i \<Longrightarrow> \<not> occurs_at hay needle i"
proof
  assume none: "std_find hay needle pos = None" and later: "pos \<le> i"
    and occ: "occurs_at hay needle i"
  from occ have "i \<le> length hay" by (rule occurs_at_in_range)
  with later have "i \<in> set [pos ..< Suc (length hay)]" by (simp del: upt_Suc)
  with none occ show False
    by (auto simp add: std_find_def find_None_iff)
qed

lemma std_find_Some:
  assumes "std_find hay needle pos = Some p"
  shows "pos \<le> p" and "occurs_at hay needle p" and "p \<le> length hay"
    and "pos \<le> j \<Longrightarrow> j < p \<Longrightarrow> \<not> occurs_at hay needle j"
proof -
  from assms obtain k where k: "k < length [pos ..< Suc (length hay)]"
      "occurs_at hay needle ([pos ..< Suc (length hay)] ! k)"
      "p = [pos ..< Suc (length hay)] ! k"
      "\<forall>m<k. \<not> occurs_at hay needle ([pos ..< Suc (length hay)] ! m)"
    unfolding std_find_def find_Some_iff by blast
  from k(1) have kb: "pos + k < Suc (length hay)" by (simp del: upt_Suc)
  then have pk: "p = pos + k" using k(3) by (simp del: upt_Suc)
  show "pos \<le> p" using pk by simp
  show "occurs_at hay needle p" using k(2) k(3) by (simp del: upt_Suc)
  show "p \<le> length hay" using pk kb by simp
  show "\<not> occurs_at hay needle j" if "pos \<le> j" "j < p"
  proof -
    from that pk have m: "j - pos < k" by linarith
    then have "pos + (j - pos) < Suc (length hay)" using kb by linarith
    then have "[pos ..< Suc (length hay)] ! (j - pos) = j" using that(1) by (simp del: upt_Suc)
    with k(4) m show ?thesis by force
  qed
qed

lemma find_result_first_match:
  assumes "0 \<le> fromIndex" "fromIndex \<le> INT_MAX" "int (length hay) \<le> INT_MAX"
  shows "first_match_or_sentinel hay needle fromIndex
           (npos_or_int (std_find hay needle (size_t_of_int fromIndex)))"
proof -
  have pos: "size_t_of_int fromIndex = nat fromIndex"
    using assms by (simp add: size_t_of_int_small INT_MAX_def)
  show ?thesis
  proof (cases "std_find hay needle (nat fromIndex)")
    case None
    have "\<not> occurs_at hay needle i" if "fromIndex \<le> int i" for i
    proof -
      from that have "nat fromIndex \<le> i" by linarith
      with None show ?thesis by (rule std_find_None)
    qed
    with None show ?thesis
      by (simp add: first_match_or_sentinel_def npos_or_int_def pos)
  next
    case (Some p)
    note found = std_find_Some [OF Some]
    have small: "static_cast_int p = int p"
      using found(3) assms(3) by (simp add: static_cast_int_small)
    have "\<not> occurs_at hay needle j" if "fromIndex \<le> int j" "int j < int p" for j
    proof -
      from that have "nat fromIndex \<le> j" "j < p" by linarith+
      then show ?thesis by (rule found(4))
    qed
    moreover have "fromIndex \<le> int p"
      using found(1) assms(1) by linarith
    ultimately show ?thesis
      using Some found(2)
      by (simp add: first_match_or_sentinel_def npos_or_int_def pos small)
  qed
qed

text \<open>
  C9, amended. For every text value of at most \<open>INT_MAX\<close> bytes, every needle and every
  \<open>fromIndex\<close> from 0 to \<open>INT_MAX\<close>, each overload of \<^verbatim>\<open>indexOf\<close> returns the position
  of the first occurrence of the needle at or after \<open>fromIndex\<close>, or \<open>-1\<close> when there is no
  such occurrence.
\<close>

theorem indexOf_first_match_from_nonnegative_index:
  assumes "0 \<le> fromIndex" "fromIndex \<le> INT_MAX" "int (length (content str)) \<le> INT_MAX"
  shows "first_match_or_sentinel (content str) (cstr needle) fromIndex
           (indexOf_cstr str needle fromIndex)
       \<and> first_match_or_sentinel (content str) [ch] fromIndex (indexOf_char str ch fromIndex)
       \<and> first_match_or_sentinel (content str) (content other) fromIndex
           (indexOf_String str other fromIndex)"
  unfolding indexOf_cstr_def indexOf_char_def indexOf_String_def
  by (intro conjI find_result_first_match assms)

theorem indexOf_first_match_from_nonnegative_index_witness:
  "indexOf_cstr (String_cstr ''abcabc'') ''bc'' 2 = 4
   \<and> first_match_or_sentinel ''abcabc'' ''bc'' 2 4
   \<and> indexOf_char (String_cstr ''abcabc'') (CHR ''z'') 2 = - 1
   \<and> first_match_or_sentinel ''abcabc'' ''z'' 2 (- 1)"
proof -
  have c: "content (String_cstr ''abcabc'') = ''abcabc''" "cstr ''bc'' = ''bc''"
    by (simp_all add: String_cstr_def cstr_def)
  have h: "(0::int) \<le> 2" "2 \<le> INT_MAX" "int (length (content (String_cstr ''abcabc''))) \<le> INT_MAX"
    by (simp_all add: INT_MAX_def c)
  have r: "indexOf_cstr (String_cstr ''abcabc'') ''bc'' 2 = 4"
    "indexOf_char (String_cstr ''abcabc'') (CHR ''z'') 2 = - 1"
    by code_simp+
  from indexOf_first_match_from_nonnegative_index [OF h, of "''bc''" "CHR ''z''" "String_cstr []"]
  show ?thesis
    by (simp add: r c)
qed

text \<open>
  C9, as the specification states it for every integer \<open>fromIndex\<close>, fails for a negative
  one: the index is converted to the unsigned \<^verbatim>\<open>size_t\<close> and lands beyond the end of the
  text, so the search reports \<open>-1\<close> although the needle occurs at position 0.
\<close>

theorem indexOf_negative_index_counterexample:
  "indexOf_cstr (String_cstr ''abc'') ''a'' (- 1) = - 1
   \<and> occurs_at ''abc'' ''a'' 0
   \<and> \<not> first_match_or_sentinel (content (String_cstr ''abc'')) (cstr ''a'') (- 1)
        (indexOf_cstr (String_cstr ''abc'') ''a'' (- 1))"
proof -
  have r: "indexOf_cstr (String_cstr ''abc'') ''a'' (- 1) = - 1"
    by (simp add: indexOf_cstr_def std_find_def npos_or_int_def String_cstr_def cstr_def
        size_t_of_int_def)
  have occ: "occurs_at ''abc'' ''a'' 0"
    by (simp add: occurs_at_def)
  have c: "content (String_cstr ''abc'') = ''abc''" "cstr ''a'' = ''a''"
    by (simp_all add: String_cstr_def cstr_def)
  have "\<not> (\<forall>i. (- 1 :: int) \<le> int i \<longrightarrow> \<not> occurs_at ''abc'' ''a'' i)"
    using occ by (intro notI) (drule spec [of _ 0], simp)
  then have "\<not> first_match_or_sentinel ''abc'' ''a'' (- 1) (- 1)"
    unfolding first_match_or_sentinel_def by simp
  with r occ show ?thesis unfolding c r by simp
qed

lemma of_char_digit_char: "d < 10 \<Longrightarrow> (of_char (digit_char d) :: nat) = 48 + d"
  by (simp add: digit_char_def of_char_of)

lemma is_digit_digit_char: "d < 10 \<Longrightarrow> is_digit (digit_char d)"
  by (simp add: is_digit_def of_char_digit_char)

lemma digit_val_digit_char: "d < 10 \<Longrightarrow> digit_val (digit_char d) = d"
  by (simp add: digit_val_def of_char_digit_char)

lemma isspace_code: "isspace c \<Longrightarrow> (of_char c :: nat) \<le> 32"
  by (auto simp add: isspace_def)

lemma is_digit_not_space: "is_digit c \<Longrightarrow> \<not> isspace c"
  using isspace_code [of c] by (auto simp add: is_digit_def)

lemma is_digit_not_sign: "is_digit c \<Longrightarrow> c \<noteq> CHR ''-'' \<and> c \<noteq> CHR ''+''"
  by (auto simp add: is_digit_def)

lemma digits_of_digits: "\<forall>c \<in> set (digits_of n). is_digit c"
proof (induction n rule: digits_of.induct)
  case (1 n)
  show ?case
  proof (cases "n < 10")
    case True
    then show ?thesis
      by (simp add: digits_of.simps [of n] is_digit_digit_char)
  next
    case False
    with 1 show ?thesis
      by (simp add: digits_of.simps [of n] is_digit_digit_char)
  qed
qed

lemma digits_of_nonempty: "digits_of n \<noteq> []"
  by (simp add: digits_of.simps [of n])

lemma digits_value_snoc: "digits_value (ds @ [c]) = digits_value ds * 10 + digit_val c"
  by (simp add: digits_value_def)

lemma digits_value_digits_of: "digits_value (digits_of n) = n"
proof (induction n rule: digits_of.induct)
  case (1 n)
  show ?case
  proof (cases "n < 10")
    case True
    then show ?thesis
      by (simp add: digits_of.simps [of n] digits_value_def digit_val_digit_char)
  next
    case False
    with 1 have "digits_value (digits_of (n div 10)) = n div 10" by simp
    with False show ?thesis
      by (simp add: digits_of.simps [of n] digits_value_snoc digit_val_digit_char)
  qed
qed

lemma takeWhile_digits_prefix:
  assumes "\<forall>c \<in> set ds. is_digit c" "takeWhile is_digit rest = []"
  shows "takeWhile is_digit (ds @ rest) = ds"
  using assms by (simp add: takeWhile_append2)

lemma read_digits:
  assumes "ds \<noteq> []" "\<forall>c \<in> set ds. is_digit c"
  shows "read_sign (dropWhile isspace (ds @ rest)) = (False, ds @ rest)"
proof -
  from assms obtain c cs where ds: "ds = c # cs" "is_digit c"
    by (cases ds) auto
  then show ?thesis
    using is_digit_not_space [of c] is_digit_not_sign [of c] by simp
qed

lemma stoi_to_string:
  assumes "INT_MIN \<le> v" "v \<le> INT_MAX" "takeWhile is_digit rest = []"
  shows "stoi (to_string v @ rest) = Inr v"
proof (cases "v < 0")
  case False
  let ?ds = "digits_of (nat v)"
  have "read_sign (dropWhile isspace (?ds @ rest)) = (False, ?ds @ rest)"
    by (rule read_digits) (simp_all add: digits_of_nonempty digits_of_digits)
  moreover have "takeWhile is_digit (?ds @ rest) = ?ds"
    using digits_of_digits assms(3) by (rule takeWhile_digits_prefix)
  ultimately show ?thesis
    using False assms(1,2)
    by (simp add: stoi_def to_string_def digits_of_nonempty digits_value_digits_of)
next
  case True
  let ?ds = "digits_of (nat (- v))"
  have "\<not> isspace (CHR ''-'')"
    by (simp add: isspace_def)
  then have "read_sign (dropWhile isspace ((CHR ''-'' # ?ds) @ rest)) = (True, ?ds @ rest)"
    by simp
  moreover have "takeWhile is_digit (?ds @ rest) = ?ds"
    using digits_of_digits assms(3) by (rule takeWhile_digits_prefix)
  ultimately show ?thesis
    using True assms(1,2)
    by (simp add: stoi_def to_string_def digits_of_nonempty digits_value_digits_of)
qed

text \<open>
  C8. \<^verbatim>\<open>toInt()\<close> never throws. On \<open>42abc\<close> it returns 42, on \<open>abc\<close> and on the empty
  text it returns 0. In general it returns the leading integer: a text that starts with
  the decimal rendering of an \<^verbatim>\<open>int\<close> \<open>v\<close>, followed by anything that does not start with
  a digit, yields \<open>v\<close>; and whenever the parse fails (no digit after the optional white
  space and sign, or any exception of \<^verbatim>\<open>std::stoi\<close>) the result is 0.
\<close>

theorem toInt_leading_integer_or_zero:
  "toInt (String_cstr ''42abc'') = 42
   \<and> toInt (String_cstr ''abc'') = 0
   \<and> toInt (String_cstr []) = 0
   \<and> (INT_MIN \<le> v \<and> v \<le> INT_MAX \<and> takeWhile is_digit rest = [] \<longrightarrow>
        toInt \<lparr>content = to_string v @ rest\<rparr> = v)
   \<and> (takeWhile is_digit (snd (read_sign (dropWhile isspace (content str)))) = [] \<longrightarrow>
        toInt str = 0)
   \<and> (stoi (content str) = Inl ex \<longrightarrow> toInt str = 0)"
proof (intro conjI impI)
  show "toInt (String_cstr ''42abc'') = 42" by code_simp
  show "toInt (String_cstr ''abc'') = 0" by code_simp
  show "toInt (String_cstr []) = 0" by code_simp
  show "toInt \<lparr>content = to_string v @ rest\<rparr> = v"
    if "INT_MIN \<le> v \<and> v \<le> INT_MAX \<and> takeWhile is_digit rest = []"
    using that by (simp add: toInt_def stoi_to_string)
  show "toInt str = 0"
    if "takeWhile is_digit (snd (read_sign (dropWhile isspace (content str)))) = []"
    using that by (auto simp add: toInt_def stoi_def Let_def split: prod.split)
  show "toInt str = 0" if "stoi (content str) = Inl ex"
    using that by (simp add: toInt_def)
qed

theorem toInt_leading_integer_or_zero_witness:
  "toInt \<lparr>content = ''-17 volts''\<rparr> = - 17 \<and> toInt \<lparr>content = ''volts''\<rparr> = 0"
proof -
  have h: "INT_MIN \<le> - 17 \<and> - 17 \<le> INT_MAX \<and> takeWhile is_digit '' volts'' = []"
    by (simp add: INT_MIN_def INT_MAX_def is_digit_def)
  have s: "to_string (- 17) @ '' volts'' = ''-17 volts''"
    by code_simp
  have n: "takeWhile is_digit (snd (read_sign (dropWhile isspace (content \<lparr>content = ''volts''\<rparr>)))) = []"
    by (simp add: is_digit_def isspace_def)
  from toInt_leading_integer_or_zero [of "- 17" "'' volts''" "\<lparr>content = ''volts''\<rparr>" invalid_argument]
  show ?thesis
    using h n unfolding s by blast
qed

section \<open>Properties of digital I/O\<close>

lemma digitalRead_after_write:
  "fst (digitalRead pin (digitalWrite p v st)) = (if p = pin then v else fst (digitalRead pin st))"
  by (simp add: digitalRead_def digitalWrite_def split: option.split)

lemma digitalRead_after_read:
  "fst (digitalRead pin (snd (digitalRead p st))) = fst (digitalRead pin st)"
  by (simp add: digitalRead_def split: option.split)

lemma log_after_read:
  "mock_digitalWrite_calls (snd (digitalRead p st)) = mock_digitalWrite_calls st"
  by (simp add: digitalRead_def split: option.split)

lemma io_run_read:
  "fst (digitalRead pin (io_run calls st)) =
     (case last_write pin calls of Some v \<Rightarrow> v | None \<Rightarrow> fst (digitalRead pin st))"
proof (induction calls arbitrary: st)
  case Nil
  show ?case by (simp add: io_run_def)
next
  case (Cons c cs)
  have step: "io_run (c # cs) st = io_run cs (io_step st c)"
    by (simp add: io_run_def)
  show ?case
    unfolding step Cons.IH
    by (cases c) (simp_all add: digitalRead_after_write digitalRead_after_read pinMode_def
        split: option.split)
qed

lemma io_run_log:
  "mock_digitalWrite_calls (io_run calls st) = mock_digitalWrite_calls st @ writes_of calls"
proof (induction calls arbitrary: st)
  case Nil
  show ?case by (simp add: io_run_def)
next
  case (Cons c cs)
  have step: "io_run (c # cs) st = io_run cs (io_step st c)"
    by (simp add: io_run_def)
  show ?case
    unfolding step Cons.IH
    by (cases c) (simp_all add: digitalWrite_def log_after_read pinMode_def)
qed

lemma last_write_never:
  "(\<forall>v. Write pin v \<notin> set calls) \<Longrightarrow> last_write pin calls = None"
proof (induction calls)
  case Nil
  show ?case by simp
next
  case (Cons c cs)
  then show ?case by (cases c) auto
qed

lemma last_write_most_recent:
  "(\<forall>v'. Write pin v' \<notin> set post) \<Longrightarrow> last_write pin (pre @ Write pin v # post) = Some v"
proof (induction pre)
  case Nil
  then show ?case by (simp add: last_write_never)
next
  case (Cons c cs)
  then show ?case by (cases c) simp_all
qed

lemma read_after_reset:
  "fst (digitalRead pin (reset_arduino_stubs now st)) = 0"
  by (simp add: digitalRead_def reset_arduino_stubs_def)

text \<open>
  C6. After a reset and any sequence of digital I/O calls: a pin that no call has written
  reads 0; a pin reads the value of the most recent write to it; the write log holds one
  entry for each write call, in call order; and a reset empties the pin table and the
  write log together, whatever was in them.
\<close>

theorem digital_io_reads_and_log:
  "((\<forall>v. Write pin v \<notin> set calls) \<longrightarrow>
      fst (digitalRead pin (io_run calls (reset_arduino_stubs now st))) = 0)
   \<and> (calls = pre @ Write pin v # post \<and> (\<forall>v'. Write pin v' \<notin> set post) \<longrightarrow>
      fst (digitalRead pin (io_run calls (reset_arduino_stubs now st))) = v)
   \<and> mock_digitalWrite_calls (io_run calls (reset_arduino_stubs now st)) = writes_of calls
   \<and> pin_states (reset_arduino_stubs now (io_run calls st)) = Map.empty
   \<and> mock_digitalWrite_calls (reset_arduino_stubs now (io_run calls st)) = []"
proof (intro conjI impI)
  assume "\<forall>v. Write pin v \<notin> set calls"
  then show "fst (digitalRead pin (io_run calls (reset_arduino_stubs now st))) = 0"
    by (simp add: io_run_read last_write_never read_after_reset)
next
  assume "calls = pre @ Write pin v # post \<and> (\<forall>v'. Write pin v' \<notin> set post)"
  then show "fst (digitalRead pin (io_run calls (reset_arduino_stubs now st))) = v"
    by (simp add: io_run_read last_write_most_recent)
next
  show "mock_digitalWrite_calls (io_run calls (reset_arduino_stubs now st)) = writes_of calls"
    by (simp add: io_run_log reset_arduino_stubs_def)
next
  show "pin_states (reset_arduino_stubs now (io_run calls st)) = Map.empty"
    by (simp add: reset_arduino_stubs_def)
next
  show "mock_digitalWrite_calls (reset_arduino_stubs now (io_run calls st)) = []"
    by (simp add: reset_arduino_stubs_def)
qed

theorem digital_io_reads_and_log_witness:
  "fst (digitalRead 7 (io_run blink_calls (reset_arduino_stubs 0 used_stubs))) = 0
   \<and> fst (digitalRead 13 (io_run blink_calls (reset_arduino_stubs 0 used_stubs))) = 1
   \<and> mock_digitalWrite_calls (io_run blink_calls (reset_arduino_stubs 0 used_stubs)) =
       [DigitalWriteCall 13 0, DigitalWriteCall 2 1, DigitalWriteCall 13 1]"
proof -
  have never: "\<forall>v. Write 7 v \<notin> set blink_calls"
    by (simp add: blink_calls_def)
  have recent: "blink_calls = [Mode 13 1, Write 13 0, Read 13, Write 2 1] @ Write 13 1 # [Read 2]
      \<and> (\<forall>v'. Write 13 v' \<notin> set [Read 2])"
    by (simp add: blink_calls_def)
  have log: "writes_of blink_calls = [DigitalWriteCall 13 0, DigitalWriteCall 2 1, DigitalWriteCall 13 1]"
    by (simp add: blink_calls_def)
  from digital_io_reads_and_log [of 7 blink_calls 0 used_stubs "[]" 0 "[]"] never
  have a: "fst (digitalRead 7 (io_run blink_calls (reset_arduino_stubs 0 used_stubs))) = 0"
    by blast
  from digital_io_reads_and_log
    [of 13 blink_calls 0 used_stubs "[Mode 13 1, Write 13 0, Read 13, Write 2 1]" 1 "[Read 2]"] recent
  have b: "fst (digitalRead 13 (io_run blink_calls (reset_arduino_stubs 0 used_stubs))) = 1"
    and c: "mock_digitalWrite_calls (io_run blink_calls (reset_arduino_stubs 0 used_stubs)) =
       writes_of blink_calls"
    by blast+
  from a b c log show ?thesis by simp
qed

section \<open>Properties of the console\<close>

lemma text_overloads_log_buffer_counter:
  "print_calls (print_cstr p ser) = print_calls ser @ [cstr p]
   \<and> outputBuffer (print_cstr p ser) = outputBuffer ser @ cstr p
   \<and> print_call_count (print_cstr p ser) = print_call_count ser + 1
   \<and> println_calls (println_cstr p ser) = println_calls ser @ [cstr p]
   \<and> outputBuffer (println_cstr p ser) = outputBuffer ser @ cstr p @ [CHR 0x0A]
   \<and> println_call_count (println_cstr p ser) = println_call_count ser + 1
   \<and> print_calls (print_String str ser) = print_calls ser @ [content str]
   \<and> outputBuffer (print_String str ser) = outputBuffer ser @ content str
   \<and> print_call_count (print_String str ser) = print_call_count ser + 1
   \<and> println_calls (println_String str ser) = println_calls ser @ [content str]
   \<and> outputBuffer (println_String str ser) = outputBuffer ser @ content str @ [CHR 0x0A]
   \<and> println_call_count (println_String str ser) = println_call_count ser + 1"
  by (simp add: print_cstr_def println_cstr_def print_String_def println_String_def)

text \<open>
  C3. The claim holds for the C string and \<^verbatim>\<open>String\<close> overloads (the lemma above) and
  fails for the \<^verbatim>\<open>int\<close> overloads. On a console after reset, \<^verbatim>\<open>print(42)\<close> and
  \<^verbatim>\<open>println(-7)\<close> append the rendered number to the call log only: the output buffer stays
  empty, the call counter stays 0, and the number goes to \<^verbatim>\<open>std::cout\<close> instead. The
  same text printed through the C string overload reaches the buffer and the counter.
\<close>

theorem int_overloads_skip_buffer_and_counter:
  "print_int 42 fresh_Serial [] = (fresh_Serial\<lparr>print_calls := [''42'']\<rparr>, ''42'')
   \<and> outputBuffer (fst (print_int 42 fresh_Serial [])) = []
   \<and> print_call_count (fst (print_int 42 fresh_Serial [])) = 0
   \<and> println_int (- 7) fresh_Serial [] =
       (fresh_Serial\<lparr>println_calls := [''-7'']\<rparr>, ''-7'' @ [CHR 0x0A])
   \<and> outputBuffer (fst (println_int (- 7) fresh_Serial [])) = []
   \<and> println_call_count (fst (println_int (- 7) fresh_Serial [])) = 0
   \<and> outputBuffer (print_cstr ''42'' fresh_Serial) = ''42''
   \<and> print_call_count (print_cstr ''42'' fresh_Serial) = 1"
proof -
  have r: "to_string 42 = ''42''" "to_string (- 7) = ''-7''"
    by code_simp+
  show ?thesis
    by (simp add: print_int_def println_int_def print_cstr_def cstr_def fresh_Serial_def r)
qed

section \<open>Properties of the filesystem\<close>

text \<open>
  What the code does: the \<open>k\<close>-th call of the process (counted from 0, on whatever
  handle) answers true exactly when \<open>k < 10\<close>, as long as the counter has not reached
  \<open>INT_MAX\<close>.
\<close>

lemma available_calls_answers:
  "count + int n \<le> INT_MAX \<Longrightarrow>
   available_calls f n count = Some (map (\<lambda>k. count + int k < 10) [0 ..< n], count + int n)"
proof (induction n arbitrary: count)
  case 0
  show ?case by simp
next
  case (Suc n)
  from Suc.prems have now: "count \<noteq> INT_MAX" and rest: "(count + 1) + int n \<le> INT_MAX"
    by simp_all
  have "[0 ..< Suc n] = 0 # map Suc [0 ..< n]"
    by (simp only: map_Suc_upt upt_conv_Cons [of 0 "Suc n"] zero_less_Suc)
  then have shift: "map (\<lambda>k. count + int k < 10) [0 ..< Suc n] =
      (count < 10) # map (\<lambda>k. (count + 1) + int k < 10) [0 ..< n]"
    by (simp add: o_def add.assoc del: upt_Suc)
  show ?case
    using now Suc.IH [OF rest] unfolding shift
    by (simp add: File_available_def)
qed

text \<open>
  C4. The claim fails on two handles. After ten calls of \<^verbatim>\<open>available()\<close> on a first
  handle, all answered true, a second handle opened afterwards answers false on its very
  first call; after three calls on the first handle the second still answers true. The
  stream length belongs to the process, not to the handle.
\<close>

theorem second_handle_finds_stream_used_up:
  "two_handles 10 = Some (replicate 10 True, False)
   \<and> two_handles 3 = Some ([True, True, True], True)
   \<and> two_handles 0 = Some ([], True)"
  by code_simp

section \<open>Properties of the network client\<close>

text \<open>
  C7. With the response code set to 404 and the response body set to \<open>not found\<close> (the
  class has no setters: a test assigns the members \<^verbatim>\<open>GET_return\<close> and
  \<^verbatim>\<open>getString_return\<close>), \<^verbatim>\<open>GET()\<close> returns 404 and \<^verbatim>\<open>getString()\<close> returns \<open>not found\<close>; after \<^verbatim>\<open>reset()\<close> the
  same calls return 200 and the empty text, and the begin counter is 0. The two setters
  of \<^verbatim>\<open>MockHTTPClient\<close> give the same configured answers, and a new \<^verbatim>\<open>MockHTTPClient\<close>
  answers 200 and the empty text.
\<close>

theorem http_configured_response_and_reset:
  "HTTPClient_GET
      ((HTTPClient_begin url c)\<lparr>GET_return := 404, getString_return := ''not found''\<rparr>) = 404
   \<and> content (HTTPClient_getString
      ((HTTPClient_begin url c)\<lparr>GET_return := 404, getString_return := ''not found''\<rparr>))
       = ''not found''
   \<and> HTTPClient_GET (HTTPClient_reset
      ((HTTPClient_begin url c)\<lparr>GET_return := 404, getString_return := ''not found''\<rparr>)) = 200
   \<and> content (HTTPClient_getString (HTTPClient_reset
      ((HTTPClient_begin url c)\<lparr>GET_return := 404, getString_return := ''not found''\<rparr>))) = []
   \<and> http_begin_call_count (HTTPClient_reset
      ((HTTPClient_begin url c)\<lparr>GET_return := 404, getString_return := ''not found''\<rparr>)) = 0
   \<and> MockHTTPClient_GET (setResponseString (String_cstr ''not found'') (setResponseCode 404 m)) = 404
   \<and> content (MockHTTPClient_getString
        (setResponseString (String_cstr ''not found'') (setResponseCode 404 m))) = ''not found''
   \<and> MockHTTPClient_GET new_MockHTTPClient = 200
   \<and> content (MockHTTPClient_getString new_MockHTTPClient) = []"
  by (simp add: HTTPClient_GET_def HTTPClient_getString_def HTTPClient_reset_def String_cstr_def
      HTTPClient_begin_def cstr_def MockHTTPClient_GET_def MockHTTPClient_getString_def
      setResponseCode_def setResponseString_def new_MockHTTPClient_def)

end
